theory Spec2Isabelle
  imports
    Complex_Main
    "HOL-Library.Sublist"
    "HOL-Library.Char_ord"
    "HOL-Library.List_Lexorder"
    "HOL-Library.Code_Target_Nat"
begin

section \<open>JavaScript values\<close>

text \<open>
  A JavaScript number is NaN, one of the two infinities or a finite value (the two zeros
  are identified: both are falsy and both are \<open>=== 0\<close>). The values found in a
  row object are strings and numbers; a property that is absent reads as \<open>undefined\<close>.
\<close>

datatype jsnum = NaN | Infinity bool | Fin real

datatype jsval = JUndefined | JStr string | JNum jsnum

text \<open>
  A row object (a "buddy") maps the CSV headers to values: an association list with
  unique keys, the order of which no code reads. The properties that the code reads
  (\<open>WorkbuddyName\<close>, \<open>State\<close>, \<open>latitude\<close>, \<open>longitude\<close>, \<open>Latitude\<close>,
  \<open>Longitude\<close>) are no members of \<open>Object.prototype\<close>, so that each of them reads as
  \<open>undefined\<close> when the object does not have it. An assignment under the key
  \<open>__proto__\<close> of a value that is no object changes nothing.
\<close>

type_synonym buddy = "(string \<times> jsval) list"

definition getProp :: "buddy \<Rightarrow> string \<Rightarrow> jsval" where
  "getProp b k = (case map_of b k of None \<Rightarrow> JUndefined | Some v \<Rightarrow> v)"

fun putProp :: "buddy \<Rightarrow> string \<Rightarrow> jsval \<Rightarrow> buddy" where
  "putProp [] k v = [(k, v)]"
| "putProp ((k', v') # b) k v = (if k' = k then (k, v) # b else (k', v') # putProp b k v)"

definition setProp :: "buddy \<Rightarrow> string \<Rightarrow> jsval \<Rightarrow> buddy" where
  "setProp b k v = (if k = ''__proto__'' then b else putProp b k v)"

text \<open>Truthiness: \<open>undefined\<close>, the empty string, \<open>0\<close> and \<open>NaN\<close> are falsy.\<close>

fun truthy :: "jsval \<Rightarrow> bool" where
  "truthy JUndefined = False"
| "truthy (JStr s) = (s \<noteq> [])"
| "truthy (JNum n) = (n \<noteq> NaN \<and> n \<noteq> Fin 0)"

datatype error = TypeError | InvalidLatLng | LoadFailed

section \<open>Strings\<close>

text \<open>
  A string is a list of code units, and the code units here are those below 256: the
  characters of Latin-1, with the accented letters. Among them the capital letters are
  A to Z (0x41 to 0x5A) and the accented capitals (0xC0 to 0xDE, without the
  multiplication sign 0xD7), and \<open>toLowerCase\<close> moves each of them up by 32; every other
  code unit below 256 it leaves as it is.
\<close>

definition isCapital :: "char \<Rightarrow> bool" where
  "isCapital c \<longleftrightarrow>
     (0x41 \<le> (of_char c :: nat) \<and> (of_char c :: nat) \<le> 0x5A) \<or>
     (0xC0 \<le> (of_char c :: nat) \<and> (of_char c :: nat) \<le> 0xDE \<and> (of_char c :: nat) \<noteq> 0xD7)"

definition toLowerChar :: "char \<Rightarrow> char" where
  "toLowerChar c = (if isCapital c then char_of ((of_char c :: nat) + 32) else c)"

definition toLowerCase :: "string \<Rightarrow> string" where
  "toLowerCase s = map toLowerChar s"

text \<open>\<open>s.includes(t)\<close>: \<open>t\<close> occurs in \<open>s\<close> at some position.\<close>

fun includes_js :: "string \<Rightarrow> string \<Rightarrow> bool" where
  "includes_js [] t = (t = [])"
| "includes_js (c # s) t = (prefix t (c # s) \<or> includes_js s t)"

section \<open>The browser and the libraries\<close>

text \<open>
  What the scripts call and do not define: \<open>fetch\<close> and the text of its response, the
  built-in conversions between strings and numbers, and the two libraries that the page
  loads from a CDN and that the scripts use only when they are there. \<open>papaParse\<close> is
  \<open>Papa.parse\<close> with \<open>header: true\<close> and \<open>skipEmptyLines: true\<close>, given the two
  callbacks \<open>transformHeader\<close> and \<open>transform\<close>; \<open>domPurify\<close> is
  \<open>DOMPurify.sanitize\<close> with \<open>ALLOWED_TAGS: []\<close>. \<open>memberText k\<close> is the text
  that the member \<open>k\<close> of \<open>Object.prototype\<close> becomes when a number is added to it
  (for \<open>toString\<close>, the source text of that function).
\<close>

datatype fetchResult = FetchRejected | Response bool "string option"

record browser =
  fetch :: "string \<Rightarrow> fetchResult"
  papaParse ::
    "((string \<Rightarrow> string) \<Rightarrow> (string \<Rightarrow> string \<Rightarrow> jsval) \<Rightarrow> string \<Rightarrow> error + buddy list) option"
  domPurify :: "(string \<Rightarrow> string) option"
  parseFloat :: "string \<Rightarrow> jsnum"
  toNumber :: "string \<Rightarrow> jsnum"
  numberToString :: "jsnum \<Rightarrow> string"
  memberText :: "string \<Rightarrow> string"

section \<open>The data store and the page\<close>

text \<open>
  \<open>window.WorkBuddies.data\<close> as \<open>utils.init\<close> creates it; \<open>null\<close> is \<open>None\<close>.
  \<open>lastFilterApplied\<close> holds a reading of \<open>Date.now()\<close>, in milliseconds.
\<close>

record store =
  raw :: "buddy list option"
  filtered :: "buddy list option"
  states :: "jsval list option"
  activeTab :: string
  isLoading :: bool
  lastFilterApplied :: int

text \<open>
  The two filter controls of the page: the text input \<open>#name-filter\<close> and the select
  \<open>#state-filter\<close> with the values of its options. \<open>None\<close>: the element is not in
  the document.
\<close>

record dom =
  nameFilterValue :: "string option"
  stateFilterValue :: "string option"
  stateFilterOptions :: "string list"

text \<open>What the deferred function of \<open>filterData\<close> has captured when it was scheduled.\<close>

record pendingFilter =
  currentFilterTime :: int
  capturedName :: string
  capturedState :: string

text \<open>
  What the object \<open>stateCounts\<close> of the chart holds under a key: a number, or the text
  that \<open>+ 1\<close> makes of a value that is no number.
\<close>

datatype count = Count nat | CountText string

text \<open>
  What happens on the page, in the order in which it happens. \<open>ChartDrawn\<close> carries the
  entries of \<open>stateCounts\<close>, \<open>ViewportFit\<close> the positions that \<open>fitBounds\<close> is
  given.
\<close>

datatype event =
    RegionSet string
  | FilterIssued int
  | FilterCommitted "buddy list"
  | TabSwitched string
  | MapDrawn "buddy list"
  | MapNoData
  | ViewportFit "(jsval \<times> jsval) list"
  | ChartDrawn "(string \<times> count) list"
  | ChartNoData
  | NetworkDrawn
  | ErrorShown

record world =
  data :: store
  page :: dom
  timers :: "pendingFilter list"
  mapReady :: bool
  markers :: "buddy list"
  trace :: "event list"

text \<open>
  A call either returns or throws; what it did to the page and the store before it threw
  stays done.
\<close>

datatype outcome = Returned world | Thrown error world


fun worldOf :: "outcome \<Rightarrow> world" where
  "worldOf (Returned w) = w"
| "worldOf (Thrown e w) = w"

definition logEvent :: "event \<Rightarrow> world \<Rightarrow> world" where
  "logEvent e w = w\<lparr>trace := trace w @ [e]\<rparr>"

section \<open>Sanitising strings\<close>

definition replaceAll :: "char \<Rightarrow> string \<Rightarrow> string \<Rightarrow> string" where
  "replaceAll c rep s = concat (map (\<lambda>x. if x = c then rep else [x]) s)"

text \<open>The basic fallback of \<open>sanitizeString\<close>: five replacements, one after the other.\<close>

definition basicSanitize :: "string \<Rightarrow> string" where
  "basicSanitize str =
     replaceAll (CHR 0x27) ''&#039;''
       (replaceAll (CHR 0x22) ''&quot;''
         (replaceAll CHR ''>'' ''&gt;''
           (replaceAll CHR ''<'' ''&lt;''
             (replaceAll CHR ''&'' ''&amp;'' str))))"

text \<open>\<open>utils.sanitizeString\<close> and \<open>dataLoader.sanitizeString\<close> on a string.\<close>

definition sanitizeString :: "browser \<Rightarrow> string \<Rightarrow> string" where
  "sanitizeString env str =
     (case domPurify env of Some purify \<Rightarrow> purify str | None \<Rightarrow> basicSanitize str)"

text \<open>
  \<open>stateViz.sanitizeString\<close> on any value: a falsy value gives the empty string, and so
  does a value that is not a string (\<open>utils.sanitizeString\<close> checks \<open>typeof\<close>).
\<close>

definition sanitizeValue :: "browser \<Rightarrow> jsval \<Rightarrow> string" where
  "sanitizeValue env v =
     (if \<not> truthy v then []
      else case v of JStr s \<Rightarrow> sanitizeString env s | _ \<Rightarrow> [])"

section \<open>The map view\<close>

text \<open>The global \<open>isNaN\<close>, which converts its argument to a number first.\<close>

definition isNaN_js :: "browser \<Rightarrow> jsval \<Rightarrow> bool" where
  "isNaN_js env v =
     (case v of JUndefined \<Rightarrow> True | JNum n \<Rightarrow> n = NaN | JStr s \<Rightarrow> toNumber env s = NaN)"

text \<open>The test of \<open>updateMap\<close> under which a record gets no marker.\<close>

definition skipMarker :: "browser \<Rightarrow> buddy \<Rightarrow> bool" where
  "skipMarker env buddy =
     (\<not> truthy (getProp buddy ''latitude'') \<or>
      \<not> truthy (getProp buddy ''longitude'') \<or>
      isNaN_js env (getProp buddy ''latitude'') \<or>
      isNaN_js env (getProp buddy ''longitude'') \<or>
      (getProp buddy ''latitude'' = JNum (Fin 0) \<and> getProp buddy ''longitude'' = JNum (Fin 0)))"

definition markerPosition :: "buddy \<Rightarrow> jsval \<times> jsval" where
  "markerPosition buddy = (getProp buddy ''latitude'', getProp buddy ''longitude'')"

text \<open>
  \<open>mapViz.updateMap\<close>. Reading \<open>data.length\<close> throws when \<open>filtered\<close> is still
  \<open>null\<close>; by then the old markers are gone.
\<close>

definition updateMap :: "browser \<Rightarrow> world \<Rightarrow> outcome" where
  "updateMap env w =
     (if \<not> mapReady w then Returned w
      else case filtered (data w) of
        None \<Rightarrow> Thrown TypeError (w\<lparr>markers := []\<rparr>)
      | Some d \<Rightarrow>
          if d = [] then Returned (logEvent MapNoData (w\<lparr>markers := []\<rparr>))
          else
            let ms = filter (\<lambda>buddy. \<not> skipMarker env buddy) d;
                w1 = logEvent (MapDrawn ms) (w\<lparr>markers := ms\<rparr>)
            in Returned (if ms \<noteq> [] then logEvent (ViewportFit (map markerPosition ms)) w1
                         else w1))"


section \<open>The state distribution view\<close>

text \<open>
  The object \<open>stateCounts\<close> starts as \<open>{}\<close> and inherits the members of
  \<open>Object.prototype\<close>. Its own keys are listed as \<open>Object.entries\<close> lists them: the
  keys that are array indices first (the decimal numerals of the integers below
  \<open>2\<^sup>3\<^sup>2 - 1\<close>), by their value, and then the other keys as they came.
\<close>

definition objectPrototypeKeys :: "string list" where
  "objectPrototypeKeys =
     [''constructor'', ''__defineGetter__'', ''__defineSetter__'', ''hasOwnProperty'',
      ''__lookupGetter__'', ''__lookupSetter__'', ''isPrototypeOf'', ''propertyIsEnumerable'',
      ''toString'', ''valueOf'', ''__proto__'', ''toLocaleString'']"

definition digitsValue :: "string \<Rightarrow> nat" where
  "digitsValue s = foldl (\<lambda>n c. 10 * n + ((of_char c :: nat) - 48)) 0 s"

definition arrayIndex :: "string \<Rightarrow> nat option" where
  "arrayIndex s =
     (if s \<noteq> [] \<and> list_all (\<lambda>c. c \<in> set ''0123456789'') s \<and>
         (s = ''0'' \<or> hd s \<noteq> CHR ''0'') \<and> digitsValue s < 4294967295
      then Some (digitsValue s) else None)"

definition keyBefore :: "string \<Rightarrow> string \<Rightarrow> bool" where
  "keyBefore k k' =
     (case arrayIndex k of
        None \<Rightarrow> False
      | Some i \<Rightarrow> (case arrayIndex k' of None \<Rightarrow> True | Some j \<Rightarrow> i < j))"

fun newEntry :: "string \<Rightarrow> count \<Rightarrow> (string \<times> count) list \<Rightarrow> (string \<times> count) list" where
  "newEntry k v [] = [(k, v)]"
| "newEntry k v ((k', v') # counts) =
     (if keyBefore k k' then (k, v) # (k', v') # counts else (k', v') # newEntry k v counts)"

text \<open>
  \<open>(stateCounts[state] || 0) + 1\<close>: an own number is counted up; a key that is not there
  reads as the member of \<open>Object.prototype\<close> of that name, which is truthy and to which
  \<open>+ 1\<close> appends the text \<open>1\<close>, or else as \<open>undefined\<close>.
\<close>

definition nextCount :: "browser \<Rightarrow> (string \<times> count) list \<Rightarrow> string \<Rightarrow> count" where
  "nextCount env counts state =
     (case map_of counts state of
        Some (Count n) \<Rightarrow> Count (n + 1)
      | Some (CountText t) \<Rightarrow> if t = [] then Count 1 else CountText (t @ ''1'')
      | None \<Rightarrow>
          if state \<in> set objectPrototypeKeys then CountText (memberText env state @ ''1'')
          else Count 1)"

text \<open>
  \<open>stateCounts[state] = ...\<close>: the assignment under \<open>__proto__\<close> of a text changes
  nothing; another key gets the value, in its place if it is there and as a new entry if
  not.
\<close>

definition countUp :: "browser \<Rightarrow> (string \<times> count) list \<Rightarrow> string \<Rightarrow> (string \<times> count) list" where
  "countUp env counts state =
     (if state = ''__proto__'' then counts
      else if map_of counts state \<noteq> None
      then map (\<lambda>(k, c). if k = state then (k, nextCount env counts state) else (k, c)) counts
      else newEntry state (nextCount env counts state) counts)"

fun stateCountsFrom ::
  "browser \<Rightarrow> (string \<times> count) list \<Rightarrow> buddy list \<Rightarrow> (string \<times> count) list" where
  "stateCountsFrom env counts [] = counts"
| "stateCountsFrom env counts (buddy # rest) =
     stateCountsFrom env
       (if truthy (getProp buddy ''State'')
        then countUp env counts (sanitizeValue env (getProp buddy ''State''))
        else counts)
       rest"

definition stateCounts :: "browser \<Rightarrow> buddy list \<Rightarrow> (string \<times> count) list" where
  "stateCounts env d = stateCountsFrom env [] d"

text \<open>
  \<open>stateViz.updateStateViz\<close>, with the D3 library loaded and the chart's container in
  the document; whatever is thrown inside is caught inside.
\<close>

definition updateStateViz :: "browser \<Rightarrow> world \<Rightarrow> world" where
  "updateStateViz env w =
     (case filtered (data w) of
        None \<Rightarrow> logEvent ChartNoData w
      | Some d \<Rightarrow>
          if d = [] then logEvent ChartNoData w
          else logEvent (ChartDrawn (stateCounts env d)) w)"


section \<open>Tabs\<close>

definition updateActiveVisualization :: "browser \<Rightarrow> world \<Rightarrow> outcome" where
  "updateActiveVisualization env w =
     (if activeTab (data w) = ''map'' then updateMap env w
      else if activeTab (data w) = ''states'' then Returned (updateStateViz env w)
      else if activeTab (data w) = ''network'' then Returned (logEvent NetworkDrawn w)
      else Returned w)"


section \<open>Filtering\<close>

text \<open>
  \<open>document.getElementById('name-filter')?.value?.toLowerCase() || ''\<close> and
  \<open>document.getElementById('state-filter')?.value || 'all'\<close>
\<close>

definition readNameFilter :: "dom \<Rightarrow> string" where
  "readNameFilter d = (case nameFilterValue d of None \<Rightarrow> [] | Some v \<Rightarrow> toLowerCase v)"

definition readStateFilter :: "dom \<Rightarrow> string" where
  "readStateFilter d =
     (case stateFilterValue d of None \<Rightarrow> ''all'' | Some v \<Rightarrow> if v = [] then ''all'' else v)"

text \<open>
  The two tests of the filter. The elements of \<open>raw\<close> are objects, and an object is
  truthy, so the guard \<open>if (!buddy) return false\<close> never fires. \<open>toLowerCase\<close> is a
  method of strings only: on a truthy number the call throws.
\<close>

definition nameMatch :: "string \<Rightarrow> buddy \<Rightarrow> error + bool" where
  "nameMatch nameFilter buddy =
     (if nameFilter = [] then Inr True
      else case getProp buddy ''WorkbuddyName'' of
        JUndefined \<Rightarrow> Inr False
      | JStr s \<Rightarrow> Inr (s \<noteq> [] \<and> includes_js (toLowerCase s) nameFilter)
      | JNum n \<Rightarrow> if truthy (JNum n) then Inl TypeError else Inr False)"

definition stateMatch :: "string \<Rightarrow> buddy \<Rightarrow> bool" where
  "stateMatch stateFilter buddy =
     (stateFilter = ''all'' \<or>
      (truthy (getProp buddy ''State'') \<and> getProp buddy ''State'' = JStr stateFilter))"

definition buddyMatches :: "string \<Rightarrow> string \<Rightarrow> buddy \<Rightarrow> error + bool" where
  "buddyMatches nameFilter stateFilter buddy =
     (case nameMatch nameFilter buddy of
        Inl e \<Rightarrow> Inl e
      | Inr nm \<Rightarrow> Inr (nm \<and> stateMatch stateFilter buddy))"

text \<open>\<open>Array.prototype.filter\<close> with a test that may throw.\<close>

fun filterArray :: "('a \<Rightarrow> error + bool) \<Rightarrow> 'a list \<Rightarrow> error + 'a list" where
  "filterArray p [] = Inr []"
| "filterArray p (x # xs) =
     (case p x of
        Inl e \<Rightarrow> Inl e
      | Inr keep \<Rightarrow>
          (case filterArray p xs of
             Inl e \<Rightarrow> Inl e
           | Inr ys \<Rightarrow> Inr (if keep then x # ys else ys)))"

definition showAppLoading :: "bool \<Rightarrow> world \<Rightarrow> world" where
  "showAppLoading show w = w\<lparr>data := (data w)\<lparr>isLoading := show\<rparr>\<rparr>"

text \<open>
  \<open>utils.filterData\<close>, called when the clock reads \<open>now\<close>: it stamps the store, reads
  the two controls and schedules the deferred function.
\<close>

definition filterData :: "int \<Rightarrow> world \<Rightarrow> world" where
  "filterData now w =
     (let w1 = w\<lparr>data := (data w)\<lparr>lastFilterApplied := now\<rparr>\<rparr>;
          w2 = (case filtered (data w1) of
                  None \<Rightarrow> w1
                | Some f \<Rightarrow> if length f > 100 then showAppLoading True w1 else w1);
          p = \<lparr>currentFilterTime = now,
               capturedName = readNameFilter (page w2),
               capturedState = readStateFilter (page w2)\<rparr>
      in logEvent (FilterIssued now) (w2\<lparr>timers := timers w2 @ [p]\<rparr>))"

text \<open>
  The deferred function. Its \<open>try\<close> swallows whatever is thrown, and its \<open>finally\<close>
  hides the loading indicator on every path, the early returns included.
\<close>

definition filterCallback :: "browser \<Rightarrow> pendingFilter \<Rightarrow> world \<Rightarrow> world" where
  "filterCallback env p w =
     showAppLoading False
       (if currentFilterTime p \<noteq> lastFilterApplied (data w) then w
        else case raw (data w) of
          None \<Rightarrow> w
        | Some r \<Rightarrow>
            (case filterArray (buddyMatches (capturedName p) (capturedState p)) r of
               Inl e \<Rightarrow> w
             | Inr fs \<Rightarrow>
                 worldOf (updateActiveVisualization env
                   (logEvent (FilterCommitted fs) (w\<lparr>data := (data w)\<lparr>filtered := Some fs\<rparr>\<rparr>)))))"

text \<open>Timers with the same delay fire in the order in which they were set.\<close>

definition runTimer :: "browser \<Rightarrow> world \<Rightarrow> world" where
  "runTimer env w =
     (case timers w of
        [] \<Rightarrow> w
      | p # ps \<Rightarrow> filterCallback env p (w\<lparr>timers := ps\<rparr>))"

text \<open>
  All the pending timers fire, one after the other. A deferred function sets no timer, so
  as many steps as there are timers empty the queue.
\<close>

definition runPending :: "browser \<Rightarrow> world \<Rightarrow> world" where
  "runPending env w = fold (\<lambda>p w'. runTimer env w') (timers w) w"

text \<open>
  The listeners that \<open>setupEventListeners\<close> puts on the two controls: the user has
  changed the control, and the listener calls \<open>filterData\<close>.
\<close>

definition onNameInput :: "int \<Rightarrow> string \<Rightarrow> world \<Rightarrow> world" where
  "onNameInput now v w =
     filterData now
       (case nameFilterValue (page w) of
          None \<Rightarrow> w
        | Some _ \<Rightarrow> w\<lparr>page := (page w)\<lparr>nameFilterValue := Some v\<rparr>\<rparr>)"

text \<open>
  Setting the value of a select picks the option with that value; with no such option
  nothing is selected and the value reads as the empty string.
\<close>

definition setSelectValue :: "string \<Rightarrow> dom \<Rightarrow> dom" where
  "setSelectValue v d =
     (case stateFilterValue d of
        None \<Rightarrow> d
      | Some _ \<Rightarrow> d\<lparr>stateFilterValue := Some (if v \<in> set (stateFilterOptions d) then v else [])\<rparr>)"

definition onStateChange :: "int \<Rightarrow> string \<Rightarrow> world \<Rightarrow> world" where
  "onStateChange now v w = filterData now (w\<lparr>page := setSelectValue v (page w)\<rparr>)"

section \<open>A click on a bar of the chart\<close>




section \<open>Text of the CSV file\<close>

text \<open>
  \<open>s.trim()\<close> takes white space and line terminators off both ends. Below 256 these are
  the tab, the line feed, the vertical tab, the form feed, the carriage return, the space
  and the no-break space.
\<close>

definition isWhiteSpace :: "char \<Rightarrow> bool" where
  "isWhiteSpace c =
     (c \<in> set [CHR 0x09, CHR 0x0A, CHR 0x0B, CHR 0x0C, CHR 0x0D, CHR 0x20, CHR 0xA0])"

definition trim :: "string \<Rightarrow> string" where
  "trim s = rev (dropWhile isWhiteSpace (rev (dropWhile isWhiteSpace s)))"

text \<open>
  \<open>s.split(c)\<close> for a separator of one character; the empty string gives one empty
  piece.
\<close>

fun splitOn :: "char \<Rightarrow> string \<Rightarrow> string list" where
  "splitOn c [] = [[]]"
| "splitOn c (x # xs) =
     (if x = c then [] # splitOn c xs
      else case splitOn c xs of
        [] \<Rightarrow> [[x]]
      | y # ys \<Rightarrow> (x # y) # ys)"

text \<open>\<open>s.split(/\r?\n/)\<close>\<close>

fun splitLines :: "string \<Rightarrow> string list" where
  "splitLines [] = [[]]"
| "splitLines (x # xs) =
     (if x = CHR 0x0A then [] # splitLines xs
      else if x = CHR 0x0D \<and> (case xs of [] \<Rightarrow> False | y # _ \<Rightarrow> y = CHR 0x0A)
      then [] # splitLines (tl xs)
      else case splitLines xs of
        [] \<Rightarrow> [[x]]
      | y # ys \<Rightarrow> (x # y) # ys)"

text \<open>The decimal digits of a non-negative integer, as a template literal prints it.\<close>

definition digitChar :: "nat \<Rightarrow> char" where
  "digitChar d = ''0123456789'' ! d"

function showNat :: "nat \<Rightarrow> string" where
  "showNat n = (if n < 10 then [digitChar n] else showNat (n div 10) @ [digitChar (n mod 10)])"
  by pat_completeness auto
termination
  by (relation "measure id") auto

declare showNat.simps [simp del]

section \<open>Loading the data\<close>

text \<open>
  The \<open>transform\<close> callback that \<open>loadData\<close> and \<open>parseCSV\<close> both hand to
  \<open>Papa.parse\<close>, and their \<open>transformHeader\<close>.
\<close>

definition transform :: "browser \<Rightarrow> string \<Rightarrow> string \<Rightarrow> jsval" where
  "transform env value header =
     (if toLowerCase header = ''latitude'' \<or> toLowerCase header = ''longitude''
      then (let num = parseFloat env value in JNum (if num = NaN then Fin 0 else num))
      else JStr (sanitizeString env value))"

definition transformHeader :: "browser \<Rightarrow> string \<Rightarrow> string" where
  "transformHeader env header = sanitizeString env (trim header)"

text \<open>Placeholder names: \<open>`MysteriousSpuddy${1000 + index}`\<close>\<close>

definition mysteriousSpuddy :: "nat \<Rightarrow> string" where
  "mysteriousSpuddy index = ''MysteriousSpuddy'' @ showNat (1000 + index)"

subsection \<open>\<open>utils.loadData\<close>\<close>

text \<open>The three attempts to fetch the file, and the text of the response.\<close>

definition orRetry :: "browser \<Rightarrow> fetchResult \<Rightarrow> string \<Rightarrow> fetchResult" where
  "orRetry env response url =
     (case response of
        FetchRejected \<Rightarrow> FetchRejected
      | Response ok body \<Rightarrow> if \<not> ok then fetch env url else Response ok body)"

definition fetchCsvText :: "browser \<Rightarrow> error + string" where
  "fetchCsvText env =
     (case orRetry env (orRetry env (fetch env ''data/data.csv'') ''./data.csv'') ''../data.csv'' of
        FetchRejected \<Rightarrow> Inl LoadFailed
      | Response ok body \<Rightarrow>
          if \<not> ok then Inl LoadFailed
          else case body of None \<Rightarrow> Inl LoadFailed | Some csvText \<Rightarrow> Inr csvText)"

text \<open>
  The manual parsing that \<open>loadData\<close> falls back to without PapaParse. The cells of a
  row are sanitised first; a header is compared with \<open>latitude\<close> and \<open>longitude\<close> as
  it is written.
\<close>

fun rowObjFrom :: "browser \<Rightarrow> buddy \<Rightarrow> string list \<Rightarrow> string list \<Rightarrow> buddy" where
  "rowObjFrom env rowObj [] rowData = rowObj"
| "rowObjFrom env rowObj (header # headers) [] =
     rowObjFrom env
       (setProp rowObj header
          (if header = ''latitude'' \<or> header = ''longitude'' then JNum (Fin 0) else JUndefined))
       headers []"
| "rowObjFrom env rowObj (header # headers) (cell # rowData) =
     rowObjFrom env
       (setProp rowObj header
          (if header = ''latitude'' \<or> header = ''longitude''
           then (let num = parseFloat env cell in JNum (if num = NaN then Fin 0 else num))
           else JStr cell))
       headers rowData"

fun parseRows :: "browser \<Rightarrow> string list \<Rightarrow> string list \<Rightarrow> buddy list" where
  "parseRows env headers [] = []"
| "parseRows env headers (row # rows) =
     (let rowData = map (\<lambda>cell. sanitizeString env (trim cell)) (splitOn CHR '','' row)
      in if rowData = [[]] then parseRows env headers rows
         else if length rowData \<noteq> length headers then parseRows env headers rows
         else rowObjFrom env [] headers rowData # parseRows env headers rows)"

definition manualParse :: "browser \<Rightarrow> string \<Rightarrow> buddy list" where
  "manualParse env csvText =
     (case splitOn (CHR 0x0A) (trim csvText) of
        [] \<Rightarrow> []
      | row0 # rows \<Rightarrow>
          parseRows env (map (\<lambda>header. sanitizeString env (trim header)) (splitOn CHR '','' row0)) rows)"

definition parseCsvText :: "browser \<Rightarrow> string \<Rightarrow> error + buddy list" where
  "parseCsvText env csvText =
     (case papaParse env of
        Some parse \<Rightarrow> parse (transformHeader env) (transform env) csvText
      | None \<Rightarrow> Inr (manualParse env csvText))"

text \<open>\<open>data.forEach((item, index) => ...)\<close>: a falsy name is replaced.\<close>

fun handleEmptyNames :: "nat \<Rightarrow> buddy list \<Rightarrow> buddy list" where
  "handleEmptyNames index [] = []"
| "handleEmptyNames index (item # rest) =
     (if \<not> truthy (getProp item ''WorkbuddyName'')
      then setProp item ''WorkbuddyName'' (JStr (mysteriousSpuddy index))
      else item) # handleEmptyNames (Suc index) rest"

text \<open>
  \<open>Array.from(new Set(data.map(item => item.State).filter(state => state))).sort()\<close>:
  a set keeps the first occurrence of each value, in the order of insertion, and the
  default sort compares the elements as strings and is stable.
\<close>

fun newSet :: "'a list \<Rightarrow> 'a list \<Rightarrow> 'a list" where
  "newSet seen [] = seen"
| "newSet seen (x # xs) = newSet (if x \<in> set seen then seen else seen @ [x]) xs"

definition toString_js :: "browser \<Rightarrow> jsval \<Rightarrow> string" where
  "toString_js env v =
     (case v of JUndefined \<Rightarrow> ''undefined'' | JStr s \<Rightarrow> s | JNum n \<Rightarrow> numberToString env n)"

definition uniqueStates :: "browser \<Rightarrow> buddy list \<Rightarrow> jsval list" where
  "uniqueStates env d =
     sort_key (toString_js env)
       (newSet [] (filter truthy (map (\<lambda>item. getProp item ''State'') d)))"

text \<open>
  \<open>populateStateFilter\<close>: every option but the first goes, and one option comes for each
  state. An option that is added is not the selected one. When the selected option goes,
  and when options go or come while none is selected, the drop-down selects its first
  option; so after the call the first option is the selected one, unless nothing was
  selected and no option went or came.
\<close>

definition populateStateFilter :: "browser \<Rightarrow> world \<Rightarrow> world" where
  "populateStateFilter env w =
     (case stateFilterValue (page w) of
        None \<Rightarrow> w
      | Some v \<Rightarrow>
          let olds = stateFilterOptions (page w);
              news = map (\<lambda>state. case state of JStr s \<Rightarrow> sanitizeString env s | _ \<Rightarrow> [])
                       (case states (data w) of None \<Rightarrow> [] | Some ss \<Rightarrow> ss);
              opts = take 1 olds @ news
          in w\<lparr>page := (page w)
                 \<lparr>stateFilterOptions := opts,
                  stateFilterValue :=
                    Some (if v \<in> set olds \<or> 1 < length olds \<or> news \<noteq> []
                          then (case opts of [] \<Rightarrow> [] | opt # _ \<Rightarrow> opt) else v)\<rparr>\<rparr>)"

text \<open>
  \<open>utils.loadData\<close>: everything that can throw comes before the first write to the
  store, and whatever is thrown leaves as one error.
\<close>

definition storeLoaded :: "browser \<Rightarrow> buddy list \<Rightarrow> store \<Rightarrow> store" where
  "storeLoaded env d st = st\<lparr>raw := Some d, filtered := Some d, states := Some (uniqueStates env d)\<rparr>"

definition loadData :: "browser \<Rightarrow> world \<Rightarrow> error + buddy list \<times> world" where
  "loadData env w =
     (case fetchCsvText env of
        Inl e \<Rightarrow> Inl LoadFailed
      | Inr csvText \<Rightarrow>
          (case parseCsvText env csvText of
             Inl e \<Rightarrow> Inl LoadFailed
           | Inr parsed \<Rightarrow>
               let d = handleEmptyNames 0 parsed
               in Inr (d, populateStateFilter env (w\<lparr>data := storeLoaded env d (data w)\<rparr>))))"

subsection \<open>\<open>app.initializeApp\<close>\<close>

definition handleError :: "world \<Rightarrow> world" where
  "handleError w = logEvent ErrorShown w"



subsection \<open>\<open>dataLoader.parseCSV\<close> and \<open>dataLoader.updateGlobalData\<close>\<close>

text \<open>
  \<open>parseCSVLine\<close>: a comma outside quotes ends a value; a quote that does not follow a
  backslash opens or closes the quotes and is dropped.
\<close>

fun parseCSVLineFrom :: "char option \<Rightarrow> bool \<Rightarrow> string \<Rightarrow> string \<Rightarrow> string list" where
  "parseCSVLineFrom prev inQuotes current [] = [current]"
| "parseCSVLineFrom prev inQuotes current (c # line) =
     (if c = CHR 0x22 \<and> prev \<noteq> Some (CHR 0x5C)
      then parseCSVLineFrom (Some c) (\<not> inQuotes) current line
      else if c = CHR '','' \<and> \<not> inQuotes
      then current # parseCSVLineFrom (Some c) inQuotes [] line
      else parseCSVLineFrom (Some c) inQuotes (current @ [c]) line)"

definition parseCSVLine :: "string \<Rightarrow> string list" where
  "parseCSVLine line = parseCSVLineFrom None False [] line"

text \<open>
  \<open>!row.WorkbuddyName || row.WorkbuddyName.trim() === ''\<close>; \<open>trim\<close> is a method of
  strings only.
\<close>

definition nameIsBlank :: "buddy \<Rightarrow> error + bool" where
  "nameIsBlank row =
     (case getProp row ''WorkbuddyName'' of
        JUndefined \<Rightarrow> Inr True
      | JStr s \<Rightarrow> Inr (s = [] \<or> trim s = [])
      | JNum n \<Rightarrow> if truthy (JNum n) then Inl TypeError else Inr True)"

fun handleBlankNames :: "nat \<Rightarrow> buddy list \<Rightarrow> error + buddy list" where
  "handleBlankNames index [] = Inr []"
| "handleBlankNames index (row # rest) =
     (case nameIsBlank row of
        Inl e \<Rightarrow> Inl e
      | Inr blank \<Rightarrow>
          (case handleBlankNames (Suc index) rest of
             Inl e \<Rightarrow> Inl e
           | Inr rows \<Rightarrow>
               Inr ((if blank then setProp row ''WorkbuddyName'' (JStr (mysteriousSpuddy index))
                     else row) # rows)))"

text \<open>
  The basic parsing of \<open>parseCSV\<close>. Here a header is compared in lower case, a value
  is sanitised after the number has been read from it, and the placeholder name carries
  the number of the line.
\<close>

fun rowFrom :: "browser \<Rightarrow> buddy \<Rightarrow> string list \<Rightarrow> string list \<Rightarrow> buddy" where
  "rowFrom env row [] values = row"
| "rowFrom env row (header # headers) [] =
     rowFrom env
       (setProp row header
          (if toLowerCase header = ''latitude'' \<or> toLowerCase header = ''longitude''
           then JNum (Fin 0) else JStr (sanitizeString env [])))
       headers []"
| "rowFrom env row (header # headers) (v # values) =
     rowFrom env
       (setProp row header
          (if toLowerCase header = ''latitude'' \<or> toLowerCase header = ''longitude''
           then (let num = parseFloat env v in JNum (if num = NaN then Fin 0 else num))
           else JStr (sanitizeString env (if v \<noteq> [] then trim v else []))))
       headers values"

fun parseLines :: "browser \<Rightarrow> string list \<Rightarrow> nat \<Rightarrow> string list \<Rightarrow> error + buddy list" where
  "parseLines env headers i [] = Inr []"
| "parseLines env headers i (line # lines) =
     (if trim line \<noteq> [] \<and> length (parseCSVLine line) = length headers
      then (let row = rowFrom env [] headers (parseCSVLine line)
            in case nameIsBlank row of
                 Inl e \<Rightarrow> Inl e
               | Inr blank \<Rightarrow>
                   (case parseLines env headers (Suc i) lines of
                      Inl e \<Rightarrow> Inl e
                    | Inr rows \<Rightarrow>
                        Inr ((if blank
                              then setProp row ''WorkbuddyName'' (JStr (mysteriousSpuddy i))
                              else row) # rows)))
      else parseLines env headers (Suc i) lines)"

text \<open>\<open>parseCSV\<close>: whatever is thrown inside is caught, and the result is empty then.\<close>

definition parseCSV :: "browser \<Rightarrow> string \<Rightarrow> buddy list" where
  "parseCSV env csvText =
     (case (case papaParse env of
              Some parse \<Rightarrow>
                (case parse (transformHeader env) (transform env) csvText of
                   Inl e \<Rightarrow> Inl e
                 | Inr rows \<Rightarrow> handleBlankNames 0 rows)
            | None \<Rightarrow>
                (case splitLines csvText of
                   [] \<Rightarrow> Inr []
                 | line0 # lines \<Rightarrow>
                     parseLines env
                       (map (\<lambda>h. sanitizeString env (trim h)) (splitOn CHR '','' line0)) 1 lines)) of
        Inl e \<Rightarrow> []
      | Inr rows \<Rightarrow> rows)"

text \<open>\<open>updateGlobalData\<close>, with \<open>updateUI\<close> at its end.\<close>

definition updateGlobalData :: "browser \<Rightarrow> buddy list \<Rightarrow> world \<Rightarrow> outcome" where
  "updateGlobalData env newData w =
     updateActiveVisualization env
       (populateStateFilter env (w\<lparr>data := storeLoaded env newData (data w)\<rparr>))"

section \<open>The properties, as the specification words them\<close>

text \<open>
  Filter criteria: a text that the display name must contain, whatever the case of the
  letters, the empty text matching every record; and a region that the record's State
  must equal, the value \<open>all\<close> matching every record.
\<close>

record criteria =
  nameQuery :: string
  region :: string

definition ciSubstring :: "string \<Rightarrow> string \<Rightarrow> bool" where
  "ciSubstring q name = (\<exists>ps seg ss. name = ps @ seg @ ss \<and> toLowerCase seg = toLowerCase q)"

definition satisfies :: "criteria \<Rightarrow> buddy \<Rightarrow> bool" where
  "satisfies C b =
     ((nameQuery C = [] \<or>
       (\<exists>name. getProp b ''WorkbuddyName'' = JStr name \<and> ciSubstring (nameQuery C) name)) \<and>
      (region C = ''all'' \<or> getProp b ''State'' = JStr (region C)))"


text \<open>
  A mappable record: both coordinates are there, both are numbers, and the pair is not
  \<open>(0, 0)\<close>.
\<close>

definition mappable :: "buddy \<Rightarrow> bool" where
  "mappable b =
     (case (getProp b ''latitude'', getProp b ''longitude'') of
        (JNum x, JNum y) \<Rightarrow> x \<noteq> NaN \<and> y \<noteq> NaN \<and> \<not> (x = Fin 0 \<and> y = Fin 0)
      | _ \<Rightarrow> False)"

text \<open>What the map does plot: both coordinates are truthy and convert to a number.\<close>

definition plottable :: "browser \<Rightarrow> buddy \<Rightarrow> bool" where
  "plottable env b \<longleftrightarrow>
     truthy (getProp b ''latitude'') \<and> truthy (getProp b ''longitude'') \<and>
     \<not> isNaN_js env (getProp b ''latitude'') \<and> \<not> isNaN_js env (getProp b ''longitude'')"









section \<open>Example data\<close>

definition alice :: buddy where
  "alice = [(''WorkbuddyName'', JStr ''Alice''), (''State'', JStr ''CA''),
            (''latitude'', JNum (Fin 37.77)), (''longitude'', JNum (Fin (-122.42)))]"

definition bob :: buddy where
  "bob = [(''WorkbuddyName'', JStr ''Bob''), (''State'', JStr ''CA''),
          (''latitude'', JNum (Fin 34.05)), (''longitude'', JNum (Fin (-118.24)))]"

definition cara :: buddy where
  "cara = [(''WorkbuddyName'', JStr ''Cara''), (''State'', JStr ''NY''),
           (''latitude'', JNum (Fin 40.71)), (''longitude'', JNum (Fin (-74.01)))]"

text \<open>
  A record whose name begins with a capital E with an acute accent (0xC9), the small
  letter being 0xE9.
\<close>

definition emile :: buddy where
  "emile = [(''WorkbuddyName'', JStr (CHR 0xC9 # ''mile'')), (''State'', JStr ''CA'')]"

text \<open>A record on the prime meridian, and one whose name is empty.\<close>

definition greenwich :: buddy where
  "greenwich = [(''WorkbuddyName'', JStr ''Greta''), (''State'', JStr ''London''),
                (''latitude'', JNum (Fin 51.48)), (''longitude'', JNum (Fin 0))]"


text \<open>
  A browser without the two libraries, whose \<open>fetch\<close> finds no file and whose
  conversions read the few numerals of the examples.
\<close>

definition readNumeral :: "string \<Rightarrow> jsnum" where
  "readNumeral s =
     (if s = ''51.48'' then Fin 51.48
      else if s = ''0'' then Fin 0
      else if s = ''40.71'' then Fin 40.71
      else if s = ''-74.01'' then Fin (-74.01)
      else NaN)"

definition plainBrowser :: browser where
  "plainBrowser =
     \<lparr>fetch = (\<lambda>url. FetchRejected), papaParse = None, domPurify = None,
      parseFloat = readNumeral, toNumber = readNumeral, numberToString = (\<lambda>n. []),
      memberText = (\<lambda>k. if k = ''constructor'' then ''function Object() { [native code] }''
                         else ''function '' @ k @ ''() { [native code] }'')\<rparr>"

text \<open>The store after the three records were loaded, and the page with its two controls.\<close>

definition loadedStore :: "buddy list \<Rightarrow> store" where
  "loadedStore r =
     \<lparr>raw = Some r, filtered = Some r, states = Some (uniqueStates plainBrowser r),
      activeTab = ''map'', isLoading = False, lastFilterApplied = 0\<rparr>"

definition loadedWorld :: "buddy list \<Rightarrow> string \<Rightarrow> string \<Rightarrow> world" where
  "loadedWorld r nameText regionValue =
     \<lparr>data = loadedStore r,
      page = \<lparr>nameFilterValue = Some nameText, stateFilterValue = Some regionValue,
              stateFilterOptions = [''all'', ''CA'', ''NY'']\<rparr>,
      timers = [], mapReady = True, markers = [], trace = []\<rparr>"

text \<open>The world before anything was loaded, as \<open>utils.init\<close> leaves the store.\<close>

definition freshWorld :: world where
  "freshWorld =
     \<lparr>data = \<lparr>raw = None, filtered = None, states = None, activeTab = ''map'',
              isLoading = False, lastFilterApplied = 0\<rparr>,
      page = \<lparr>nameFilterValue = Some [], stateFilterValue = Some ''all'',
              stateFilterOptions = [''all'']\<rparr>,
      timers = [], mapReady = False, markers = [], trace = []\<rparr>"

text \<open>
  A CSV file of two records, the second without a name, and a browser that serves it.
\<close>

definition exampleCsv :: string where
  "exampleCsv = ''WorkbuddyName,State,latitude,longitude'' @ [CHR 0x0A] @
                ''Greta,London,51.48,0'' @ [CHR 0x0A] @ '',NY,40.71,-74.01''"

definition servingBrowser :: "string \<Rightarrow> browser" where
  "servingBrowser csvText = plainBrowser\<lparr>fetch := (\<lambda>url. Response True (Some csvText))\<rparr>"

definition exampleRows :: "buddy list" where
  "exampleRows =
     [greenwich,
      [(''WorkbuddyName'', JStr ''MysteriousSpuddy1001''), (''State'', JStr ''NY''),
       (''latitude'', JNum (Fin 40.71)), (''longitude'', JNum (Fin (-74.01)))]]"

definition exampleLoaded :: world where
  "exampleLoaded =
     populateStateFilter (servingBrowser exampleCsv)
       (freshWorld\<lparr>data := storeLoaded (servingBrowser exampleCsv) exampleRows (data freshWorld)\<rparr>)"




text \<open>
  A file whose coordinate headers begin with a capital letter, with one record whose
  longitude is no numeral.
\<close>

definition capitalCsv :: string where
  "capitalCsv = ''WorkbuddyName,State,Latitude,Longitude'' @ [CHR 0x0A] @
                ''Greta,London,51.48,abc''"




section \<open>Facts about the model\<close>

subsection \<open>Strings\<close>

lemma includes_js_sublist: "includes_js s t \<longleftrightarrow> sublist t s"
  by (induction s) (auto simp: sublist_Cons_right)

lemma toLowerCase_append: "toLowerCase (a @ b) = toLowerCase a @ toLowerCase b"
  by (simp add: toLowerCase_def)

lemma length_toLowerCase [simp]: "length (toLowerCase s) = length s"
  by (simp add: toLowerCase_def)

lemma toLowerCase_Nil_iff [simp]: "toLowerCase q = [] \<longleftrightarrow> q = []"
  by (simp add: toLowerCase_def)

lemma toLowerCase_Nil [simp]: "toLowerCase [] = []"
  by (simp add: toLowerCase_def)

lemma ciSubstring_iff: "ciSubstring q name \<longleftrightarrow> sublist (toLowerCase q) (toLowerCase name)"
proof
  assume "ciSubstring q name"
  then obtain ps seg ss where "name = ps @ seg @ ss" "toLowerCase seg = toLowerCase q"
    unfolding ciSubstring_def by blast
  then show "sublist (toLowerCase q) (toLowerCase name)"
    unfolding sublist_def by (metis toLowerCase_append)
next
  assume "sublist (toLowerCase q) (toLowerCase name)"
  then obtain ps ss where eq: "toLowerCase name = ps @ toLowerCase q @ ss"
    unfolding sublist_def by blast
  let ?a = "take (length ps) name"
  let ?b = "take (length q) (drop (length ps) name)"
  let ?c = "drop (length q) (drop (length ps) name)"
  have "name = ?a @ ?b @ ?c"
    by (metis append_take_drop_id)
  moreover have "toLowerCase ?b = toLowerCase q"
  proof -
    have "toLowerCase ?b = take (length q) (drop (length ps) (toLowerCase name))"
      by (simp add: toLowerCase_def take_map drop_map)
    also have "\<dots> = toLowerCase q"
    proof -
      have "length ps + length q = length (ps @ toLowerCase q)" by simp
      then show ?thesis unfolding eq by (simp del: length_append)
    qed
    finally show ?thesis .
  qed
  ultimately show "ciSubstring q name" unfolding ciSubstring_def by blast
qed

lemma toLowerCase_examples:
  "toLowerCase ''Latitude'' = ''latitude''"
  "toLowerCase (CHR 0xC9 # ''mile'') = CHR 0xE9 # ''mile''"
  "toLowerCase [CHR 0xD7, CHR 0xDF, CHR 0xFF] = [CHR 0xD7, CHR 0xDF, CHR 0xFF]"
  by code_simp+

lemma trim_examples:
  "trim [CHR 0xA0, CHR ''a'', CHR 0x20, CHR ''b'', CHR 0x09, CHR 0xA0] = ''a b''"
  "trim [CHR 0xA0] = []"
  by code_simp+

subsection \<open>The filter test against the criteria\<close>

lemma accented_name_matches:
  "buddyMatches (toLowerCase [CHR 0xE9]) ''all'' emile = Inr True"
  "satisfies \<lparr>nameQuery = [CHR 0xE9], region = ''all''\<rparr> emile"
proof -
  have l: "toLowerCase [CHR 0xE9] = [CHR 0xE9]"
    "toLowerCase (CHR 0xC9 # ''mile'') = CHR 0xE9 # ''mile''"
    by code_simp+
  have g: "getProp emile ''WorkbuddyName'' = JStr (CHR 0xC9 # ''mile'')"
    by (simp add: emile_def getProp_def)
  show "buddyMatches (toLowerCase [CHR 0xE9]) ''all'' emile = Inr True"
    by (simp add: buddyMatches_def nameMatch_def stateMatch_def g l)
  show "satisfies \<lparr>nameQuery = [CHR 0xE9], region = ''all''\<rparr> emile"
    by (simp add: satisfies_def g ciSubstring_iff includes_js_sublist [symmetric] l)
qed


lemma readStateFilter_nonempty: "readStateFilter d \<noteq> []"
  by (simp add: readStateFilter_def split: option.splits)



lemma filterArray_total:
  assumes "\<forall>x\<in>set xs. p x = Inr (P x)"
  shows "filterArray p xs = Inr (filter P xs)"
  using assms by (induction xs) auto

subsection \<open>What each step leaves alone\<close>

lemma data_logEvent [simp]: "data (logEvent e w) = data w"
  by (simp add: logEvent_def)

lemma timers_logEvent [simp]: "timers (logEvent e w) = timers w"
  by (simp add: logEvent_def)

lemma page_logEvent [simp]: "page (logEvent e w) = page w"
  by (simp add: logEvent_def)

lemma mapReady_logEvent [simp]: "mapReady (logEvent e w) = mapReady w"
  by (simp add: logEvent_def)

lemma trace_logEvent [simp]: "trace (logEvent e w) = trace w @ [e]"
  by (simp add: logEvent_def)

lemma data_updateMap [simp]: "data (worldOf (updateMap env w)) = data w"
  by (simp add: updateMap_def Let_def split: option.splits)

lemma data_updateStateViz [simp]: "data (updateStateViz env w) = data w"
  by (simp add: updateStateViz_def split: option.splits)

lemma data_updateActiveVisualization [simp]:
  "data (worldOf (updateActiveVisualization env w)) = data w"
  by (simp add: updateActiveVisualization_def)

lemma data_showAppLoading: "data (showAppLoading b w) = (data w)\<lparr>isLoading := b\<rparr>"
  by (simp add: showAppLoading_def)

lemma page_showAppLoading [simp]: "page (showAppLoading b w) = page w"
  by (simp add: showAppLoading_def)

lemma timers_showAppLoading [simp]: "timers (showAppLoading b w) = timers w"
  by (simp add: showAppLoading_def)

lemma trace_showAppLoading [simp]: "trace (showAppLoading b w) = trace w"
  by (simp add: showAppLoading_def)

lemma mapReady_showAppLoading [simp]: "mapReady (showAppLoading b w) = mapReady w"
  by (simp add: showAppLoading_def)

subsection \<open>Issuing a filter and running its deferred function\<close>

lemma timers_filterData:
  "timers (filterData now w) =
     timers w @ [\<lparr>currentFilterTime = now, capturedName = readNameFilter (page w),
                  capturedState = readStateFilter (page w)\<rparr>]"
  by (simp add: filterData_def Let_def split: option.splits)

lemma data_filterData:
  "lastFilterApplied (data (filterData now w)) = now"
  "raw (data (filterData now w)) = raw (data w)"
  "filtered (data (filterData now w)) = filtered (data w)"
  "states (data (filterData now w)) = states (data w)"
  "activeTab (data (filterData now w)) = activeTab (data w)"
  by (simp_all add: filterData_def Let_def data_showAppLoading split: option.splits)

lemma page_filterData [simp]: "page (filterData now w) = page w"
  by (simp add: filterData_def Let_def split: option.splits)

lemma mapReady_filterData [simp]: "mapReady (filterData now w) = mapReady w"
  by (simp add: filterData_def Let_def split: option.splits)

lemma trace_filterData [simp]: "trace (filterData now w) = trace w @ [FilterIssued now]"
  by (simp add: filterData_def Let_def split: option.splits)

lemma runTimer_Cons:
  "timers w = p # ps \<Longrightarrow> runTimer env w = filterCallback env p (w\<lparr>timers := ps\<rparr>)"
  by (simp add: runTimer_def)

lemma filterCallback_commits:
  assumes "currentFilterTime p = lastFilterApplied (data w)"
    and "raw (data w) = Some r"
    and "filterArray (buddyMatches (capturedName p) (capturedState p)) r = Inr fs"
  shows "filtered (data (filterCallback env p w)) = Some fs"
  using assms by (simp add: filterCallback_def data_showAppLoading)

lemma runTimer_filterData:
  assumes "timers w = []"
    and "raw (data w) = Some r"
    and "filterArray (buddyMatches (readNameFilter (page w)) (readStateFilter (page w))) r = Inr fs"
  shows "filtered (data (runTimer env (filterData now w))) = Some fs"
proof -
  let ?p = "\<lparr>currentFilterTime = now, capturedName = readNameFilter (page w),
             capturedState = readStateFilter (page w)\<rparr>"
  have "timers (filterData now w) = ?p # []"
    using assms(1) by (simp add: timers_filterData)
  then have "runTimer env (filterData now w) =
        filterCallback env ?p ((filterData now w)\<lparr>timers := []\<rparr>)"
    by (rule runTimer_Cons)
  then show ?thesis
    using assms(2,3) by (simp add: filterCallback_commits data_filterData)
qed

subsection \<open>The examples\<close>

lemma getProp_examples [simp]:
  "getProp alice ''WorkbuddyName'' = JStr ''Alice''" "getProp alice ''State'' = JStr ''CA''"
  "getProp bob ''WorkbuddyName'' = JStr ''Bob''" "getProp bob ''State'' = JStr ''CA''"
  "getProp cara ''WorkbuddyName'' = JStr ''Cara''" "getProp cara ''State'' = JStr ''NY''"
  by (simp_all add: getProp_def alice_def bob_def cara_def)

lemma loadedWorld_simps [simp]:
  "timers (loadedWorld r n s) = []"
  "raw (data (loadedWorld r n s)) = Some r"
  "filtered (data (loadedWorld r n s)) = Some r"
  "mapReady (loadedWorld r n s)"
  "nameFilterValue (page (loadedWorld r n s)) = Some n"
  "stateFilterValue (page (loadedWorld r n s)) = Some s"
  "trace (loadedWorld r n s) = []"
  "activeTab (data (loadedWorld r n s)) = ''map''"
  "lastFilterApplied (data (loadedWorld r n s)) = 0"
  by (simp_all add: loadedWorld_def loadedStore_def)

subsection \<open>The distinct states\<close>

lemma set_newSet: "set (newSet seen xs) = set seen \<union> set xs"
  by (induction xs arbitrary: seen) auto

lemma distinct_newSet: "distinct seen \<Longrightarrow> distinct (newSet seen xs)"
  by (induction xs arbitrary: seen) auto

lemma distinct_uniqueStates: "distinct (uniqueStates env d)"
  by (simp add: uniqueStates_def distinct_newSet)

lemma sorted_uniqueStates: "sorted (map (toString_js env) (uniqueStates env d))"
  by (simp add: uniqueStates_def)

lemma set_uniqueStates:
  "set (uniqueStates env d) = {v. truthy v \<and> (\<exists>item\<in>set d. getProp item ''State'' = v)}"
  by (auto simp: uniqueStates_def set_newSet)

lemma uniqueStates_of_strings:
  assumes "\<forall>item\<in>set d. getProp item ''State'' = JUndefined \<or> (\<exists>s. getProp item ''State'' = JStr s)"
  shows "uniqueStates env d =
         map JStr (sorted_list_of_set {s. s \<noteq> [] \<and> (\<exists>item\<in>set d. getProp item ''State'' = JStr s)})"
proof -
  let ?S = "{s. s \<noteq> [] \<and> (\<exists>item\<in>set d. getProp item ''State'' = JStr s)}"
  let ?xs = "uniqueStates env d"
  let ?ys = "map (toString_js env) ?xs"
  have xs_set: "set ?xs = JStr ` ?S"
  proof (intro set_eqI iffI)
    fix v assume "v \<in> set ?xs"
    then obtain item where v: "truthy v" "item \<in> set d" "getProp item ''State'' = v"
      by (auto simp: set_uniqueStates)
    with assms obtain s where "v = JStr s" by (cases v) auto
    with v show "v \<in> JStr ` ?S" by auto
  next
    fix v assume "v \<in> JStr ` ?S"
    then show "v \<in> set ?xs" by (auto simp: set_uniqueStates)
  qed
  have str: "\<forall>v\<in>set ?xs. JStr (toString_js env v) = v"
    unfolding xs_set by (simp add: toString_js_def)
  then have xs: "?xs = map JStr ?ys"
    by (simp add: map_idI comp_def)
  have "inj_on (toString_js env) (set ?xs)"
    unfolding xs_set by (rule inj_onI) (auto simp: toString_js_def)
  then have dist: "distinct ?ys"
    by (simp add: distinct_map distinct_uniqueStates)
  have "set ?ys = toString_js env ` JStr ` ?S"
    using xs_set by simp
  also have "\<dots> = ?S"
    by (simp add: image_image toString_js_def)
  finally have set_ys: "set ?ys = ?S" .
  then have "finite ?S"
    by (metis List.finite_set)
  then have "?ys = sorted_list_of_set ?S"
    using dist sorted_uniqueStates [of env d] set_ys
    by (metis sorted_list_of_set.idem_if_sorted_distinct)
  then show ?thesis using xs by simp
qed

subsection \<open>Loading and the store\<close>

lemma data_populateStateFilter [simp]: "data (populateStateFilter env w) = data w"
  by (simp add: populateStateFilter_def Let_def split: option.splits)

lemma trace_populateStateFilter [simp]: "trace (populateStateFilter env w) = trace w"
  by (simp add: populateStateFilter_def Let_def split: option.splits)

lemma loadData_store:
  assumes "loadData env w = Inr (d, w')"
  shows "data w' = storeLoaded env d (data w)"
  using assms by (auto simp: loadData_def Let_def split: sum.splits)

lemma data_updateGlobalData:
  "data (worldOf (updateGlobalData env d w)) = storeLoaded env d (data w)"
  by (simp add: updateGlobalData_def)

lemma data_filterCallback:
  "raw (data (filterCallback env p w)) = raw (data w)"
  "states (data (filterCallback env p w)) = states (data w)"
  "lastFilterApplied (data (filterCallback env p w)) = lastFilterApplied (data w)"
  "activeTab (data (filterCallback env p w)) = activeTab (data w)"
  by (simp_all add: filterCallback_def data_showAppLoading split: option.splits sum.splits)

lemma data_runTimer:
  "raw (data (runTimer env w)) = raw (data w)"
  "states (data (runTimer env w)) = states (data w)"
  "lastFilterApplied (data (runTimer env w)) = lastFilterApplied (data w)"
  by (simp_all add: runTimer_def data_filterCallback split: list.splits)

lemma exampleCsv_parsed: "handleEmptyNames 0 (manualParse (servingBrowser exampleCsv) exampleCsv) = exampleRows"
  by code_simp

lemma exampleCsv_fetched: "fetchCsvText (servingBrowser exampleCsv) = Inr exampleCsv"
  by (simp add: fetchCsvText_def orRetry_def servingBrowser_def)

lemma exampleCsv_loaded:
  "loadData (servingBrowser exampleCsv) freshWorld = Inr (exampleRows, exampleLoaded)"
proof -
  have "papaParse (servingBrowser exampleCsv) = None"
    by (simp add: servingBrowser_def plainBrowser_def)
  then show ?thesis
    by (simp add: loadData_def exampleCsv_fetched parseCsvText_def exampleCsv_parsed
        exampleLoaded_def)
qed

lemma exampleRows_states:
  "getProp (exampleRows ! 0) ''State'' = JStr ''London''"
  "getProp (exampleRows ! 1) ''State'' = JStr ''NY''"
  "getProp (exampleRows ! 1) ''WorkbuddyName'' = JStr ''MysteriousSpuddy1001''"
  by (simp_all add: exampleRows_def greenwich_def getProp_def)

subsection \<open>Placeholder names\<close>












subsection \<open>The rows of the basic CSV parsing\<close>

lemma getProp_Nil [simp]: "getProp [] k = JUndefined"
  by (simp add: getProp_def)









subsection \<open>Markers and counts\<close>

lemma skipMarker_iff: "skipMarker env b \<longleftrightarrow> \<not> plottable env b"
  by (auto simp: skipMarker_def plottable_def)

lemma markers_updateMap:
  assumes "mapReady w" and "filtered (data w) = Some fs"
  shows "markers (worldOf (updateMap env w)) = filter (plottable env) fs"
  using assms by (simp add: updateMap_def Let_def logEvent_def skipMarker_iff)

lemma countUp_examples:
  "fold (\<lambda>state counts. countUp plainBrowser counts state)
     [''NY'', ''10'', ''CA'', ''2'', ''NY'', ''007''] [] =
   [(''2'', Count 1), (''10'', Count 1), (''NY'', Count 2), (''CA'', Count 1), (''007'', Count 1)]"
  "fold (\<lambda>state counts. countUp plainBrowser counts state)
     [''__proto__'', ''constructor'', ''constructor''] [] =
   [(''constructor'', CountText ''function Object() { [native code] }11'')]"
  by code_simp+

subsection \<open>A load that fails, and a load that finds no record\<close>








lemma handleError_simps [simp]:
  "data (handleError w) = data w" "trace (handleError w) = trace w @ [ErrorShown]"
  "markers (handleError w) = markers w" "mapReady (handleError w) = mapReady w"
  by (simp_all add: handleError_def logEvent_def)






subsection \<open>Tokens, and the click on a bar\<close>

lemma filterCallback_stale:
  assumes "currentFilterTime p \<noteq> lastFilterApplied (data w)"
  shows "filtered (data (filterCallback env p w)) = filtered (data w)"
    and "trace (filterCallback env p w) = trace w"
  using assms by (simp_all add: filterCallback_def data_showAppLoading)

lemma two_issuances:
  "map currentFilterTime (timers (filterData now2 (filterData now1 w))) =
     map currentFilterTime (timers w) @ [now1, now2]"
  by (simp add: timers_filterData)

lemma superseded_never_commits:
  assumes "now1 \<noteq> now2" and "timers w = []"
  shows "filtered (data (runTimer env (filterData now2 (filterData now1 w)))) = filtered (data w)"
proof -
  let ?w2 = "filterData now2 (filterData now1 w)"
  obtain p ps where t: "timers ?w2 = p # ps" and p: "currentFilterTime p = now1"
    using assms(2) by (simp add: timers_filterData)
  have "lastFilterApplied (data (?w2\<lparr>timers := ps\<rparr>)) = now2"
    by (simp add: data_filterData)
  with p assms(1) have "filtered (data (filterCallback env p (?w2\<lparr>timers := ps\<rparr>))) =
      filtered (data (?w2\<lparr>timers := ps\<rparr>))"
    by (intro filterCallback_stale) simp
  then show ?thesis
    by (simp add: runTimer_Cons [OF t] data_filterData)
qed





lemma setSelectValue_name [simp]:
  "nameFilterValue (setSelectValue v d) = nameFilterValue d"
  by (simp add: setSelectValue_def split: option.splits)

lemma readNameFilter_setSelectValue [simp]:
  "readNameFilter (setSelectValue v d) = readNameFilter d"
  by (simp add: readNameFilter_def)

subsection \<open>Draining the pending timers\<close>

lemma timers_updateMap [simp]: "timers (worldOf (updateMap env w)) = timers w"
  by (simp add: updateMap_def Let_def split: option.splits)

lemma timers_updateStateViz [simp]: "timers (updateStateViz env w) = timers w"
  by (simp add: updateStateViz_def split: option.splits)

lemma timers_updateActiveVisualization [simp]:
  "timers (worldOf (updateActiveVisualization env w)) = timers w"
  by (simp add: updateActiveVisualization_def)

lemma timers_filterCallback [simp]: "timers (filterCallback env p w) = timers w"
  by (simp add: filterCallback_def split: option.splits sum.splits)

lemma timers_runTimer: "timers (runTimer env w) = tl (timers w)"
  by (simp add: runTimer_def split: list.splits)

lemma fold_runTimer_commits:
  assumes "timers w = ps @ [p]"
    and "lastFilterApplied (data w) = currentFilterTime p"
    and "raw (data w) = Some r"
    and "filterArray (buddyMatches (capturedName p) (capturedState p)) r = Inr fs"
  shows "filtered (data (fold (\<lambda>q w'. runTimer env w') (ps @ [p]) w)) = Some fs"
  using assms(1,2,3)
proof (induction ps arbitrary: w)
  case Nil
  then have "runTimer env w = filterCallback env p (w\<lparr>timers := []\<rparr>)"
    by (simp add: runTimer_Cons)
  moreover have "filtered (data (filterCallback env p (w\<lparr>timers := []\<rparr>))) = Some fs"
    using Nil assms(4) by (intro filterCallback_commits) simp_all
  ultimately show ?case by simp
next
  case (Cons q qs)
  let ?w1 = "runTimer env w"
  have w1: "?w1 = filterCallback env q (w\<lparr>timers := qs @ [p]\<rparr>)"
    using Cons.prems(1) by (simp add: runTimer_Cons)
  have "timers ?w1 = qs @ [p]" "lastFilterApplied (data ?w1) = currentFilterTime p"
    "raw (data ?w1) = Some r"
    using Cons.prems by (simp_all add: w1 data_filterCallback)
  from Cons.IH [OF this] show ?case by simp
qed

lemma runPending_filterData:
  assumes "raw (data w) = Some r"
    and "filterArray (buddyMatches (readNameFilter (page w)) (readStateFilter (page w))) r = Inr fs"
  shows "filtered (data (runPending env (filterData now w))) = Some fs"
proof -
  let ?p = "\<lparr>currentFilterTime = now, capturedName = readNameFilter (page w),
             capturedState = readStateFilter (page w)\<rparr>"
  have t: "timers (filterData now w) = timers w @ [?p]" by (rule timers_filterData)
  have "filtered (data (fold (\<lambda>q w'. runTimer env w') (timers w @ [?p]) (filterData now w))) = Some fs"
    using t assms by (intro fold_runTimer_commits) (simp_all add: data_filterData)
  then show ?thesis by (simp add: runPending_def t)
qed

lemma timers_fold_runTimer:
  "timers (fold (\<lambda>q w'. runTimer env w') qs w) = drop (length qs) (timers w)"
proof (induction qs arbitrary: w)
  case Nil
  show ?case by simp
next
  case (Cons q qs)
  show ?case by (simp add: Cons.IH timers_runTimer drop_Suc)
qed

lemma timers_runPending [simp]: "timers (runPending env w) = []"
  by (simp add: runPending_def timers_fold_runTimer)



section \<open>The claims\<close>



text \<open>
  C5. For every loaded record set, applying the match-all criteria (the empty name text
  and the region \<open>all\<close>) gives a \<open>filtered\<close> that is equal to \<open>raw\<close>, by value and in
  the same order. The same holds when a control is not in the page, and when nothing is
  selected in the region select, whose value is the empty text then.
\<close>

theorem match_all_is_identity:
  assumes "raw (data w) = Some r"
    and "nameFilterValue (page w) \<in> {None, Some []}"
    and "stateFilterValue (page w) \<in> {None, Some [], Some ''all''}"
  shows "filtered (data (runPending env (filterData now w))) = Some r"
proof -
  have n: "readNameFilter (page w) = []"
    using assms(2) by (auto simp: readNameFilter_def)
  have s: "readStateFilter (page w) = ''all''"
    using assms(3) by (auto simp: readStateFilter_def)
  have "\<forall>b\<in>set r. buddyMatches [] ''all'' b = Inr True"
    by (simp add: buddyMatches_def nameMatch_def stateMatch_def)
  then have "filterArray (buddyMatches [] ''all'') r = Inr (filter (\<lambda>b. True) r)"
    by (rule filterArray_total)
  then show ?thesis
    using runPending_filterData [OF assms(1), of r env now] by (simp add: n s)
qed

theorem match_all_is_identity_witness:
  "raw (data (loadedWorld [alice, bob, cara] [] ''all'')) = Some [alice, bob, cara] \<and>
   nameFilterValue (page (loadedWorld [alice, bob, cara] [] ''all'')) = Some [] \<and>
   stateFilterValue (page (loadedWorld [alice, bob, cara] [] ''all'')) = Some ''all'' \<and>
   filtered (data (runPending plainBrowser (filterData 5 (loadedWorld [alice, bob, cara] [] ''all''))))
     = Some [alice, bob, cara]"
proof -
  let ?w = "loadedWorld [alice, bob, cara] [] ''all''"
  have h: "raw (data ?w) = Some [alice, bob, cara]"
    "nameFilterValue (page ?w) \<in> {None, Some []}"
    "stateFilterValue (page ?w) \<in> {None, Some [], Some ''all''}"
    by simp_all
  have c: "nameFilterValue (page ?w) = Some []" "stateFilterValue (page ?w) = Some ''all''"
    by simp_all
  from match_all_is_identity [OF h, of plainBrowser 5] h(1) c
  show ?thesis by (intro conjI)
qed

text \<open>
  C7. After every load or replacement of \<open>raw\<close>, the \<open>states\<close> field of the store (the
  categories) is exactly the sorted set of the distinct, non-empty State values present
  in \<open>raw\<close>: it is computed anew by \<open>loadData\<close> and by \<open>updateGlobalData\<close>, the two
  places that write \<open>raw\<close>, and no filter operation modifies it.
\<close>

theorem categories_are_sorted_distinct_states:
  "(loadData env w = Inr (d, w') \<longrightarrow>
      raw (data w') = Some d \<and> states (data w') = Some (uniqueStates env d)) \<and>
   raw (data (worldOf (updateGlobalData env d w))) = Some d \<and>
   states (data (worldOf (updateGlobalData env d w))) = Some (uniqueStates env d) \<and>
   distinct (uniqueStates env d) \<and>
   sorted (map (toString_js env) (uniqueStates env d)) \<and>
   set (uniqueStates env d) = {v. truthy v \<and> (\<exists>item\<in>set d. getProp item ''State'' = v)} \<and>
   ((\<forall>item\<in>set d. getProp item ''State'' = JUndefined \<or> (\<exists>s. getProp item ''State'' = JStr s)) \<longrightarrow>
      uniqueStates env d =
        map JStr (sorted_list_of_set
          {s. s \<noteq> [] \<and> (\<exists>item\<in>set d. getProp item ''State'' = JStr s)})) \<and>
   states (data (filterData now w)) = states (data w) \<and>
   states (data (filterCallback env p w)) = states (data w) \<and>
   states (data (runTimer env w)) = states (data w)"
proof -
  have "loadData env w = Inr (d, w') \<longrightarrow>
      raw (data w') = Some d \<and> states (data w') = Some (uniqueStates env d)"
    by (auto dest!: loadData_store simp: storeLoaded_def)
  moreover have "raw (data (worldOf (updateGlobalData env d w))) = Some d"
    "states (data (worldOf (updateGlobalData env d w))) = Some (uniqueStates env d)"
    by (simp_all add: data_updateGlobalData storeLoaded_def)
  ultimately show ?thesis
    using distinct_uniqueStates [of env d] sorted_uniqueStates [of env d]
      set_uniqueStates [of env d] uniqueStates_of_strings [of d env]
      data_filterData(4) [of now w] data_filterCallback(2) [of env p w] data_runTimer(2) [of env w]
    by blast
qed

theorem categories_are_sorted_distinct_states_witness:
  "loadData (servingBrowser exampleCsv) freshWorld = Inr (exampleRows, exampleLoaded) \<and>
   raw (data exampleLoaded) = Some exampleRows \<and>
   states (data exampleLoaded) = Some (uniqueStates (servingBrowser exampleCsv) exampleRows) \<and>
   uniqueStates (servingBrowser exampleCsv) exampleRows =
     map JStr (sorted_list_of_set
       {s. s \<noteq> [] \<and> (\<exists>item\<in>set exampleRows. getProp item ''State'' = JStr s)})"
proof -
  have h: "\<forall>item\<in>set exampleRows.
             getProp item ''State'' = JUndefined \<or> (\<exists>s. getProp item ''State'' = JStr s)"
    by (simp add: exampleRows_def greenwich_def getProp_def)
  show ?thesis
    using h exampleCsv_loaded
      categories_are_sorted_distinct_states
        [of "servingBrowser exampleCsv" freshWorld exampleRows exampleLoaded]
    by blast
qed



text \<open>
  C10. For every record that a successful load produces, the latitude and the longitude
  hold numbers and never \<open>NaN\<close>: a coordinate cell that does not parse as a number is
  stored as 0, it is not stored as \<open>NaN\<close>, and the row is not dropped for it. The
  callback that \<open>utils.loadData\<close> gives to PapaParse does this under a header that reads
  \<open>latitude\<close> or \<open>longitude\<close> whatever the case of its letters, and so does the basic
  parsing of \<open>dataLoader.parseCSV\<close>. The parsing that \<open>utils.loadData\<close> falls back to
  without PapaParse compares the header as it is written, under the same comment
  ("convert latitude and longitude to numbers"): of the file below, whose headers read
  \<open>Latitude\<close> and \<open>Longitude\<close>, it stores the two cells as the texts \<open>51.48\<close> and
  \<open>abc\<close>, where the callback of the same function makes the numbers 51.48 and 0 of
  them, and so does \<open>parseCSV\<close> of the same file.
\<close>

theorem capitalised_coordinates_stay_text_without_papaparse:
  "papaParse (servingBrowser capitalCsv) = None \<and>
   map_sum id fst (loadData (servingBrowser capitalCsv) freshWorld) =
     Inr [[(''WorkbuddyName'', JStr ''Greta''), (''State'', JStr ''London''),
           (''Latitude'', JStr ''51.48''), (''Longitude'', JStr ''abc'')]] \<and>
   transform (servingBrowser capitalCsv) ''51.48'' ''Latitude'' = JNum (Fin 51.48) \<and>
   transform (servingBrowser capitalCsv) ''abc'' ''Longitude'' = JNum (Fin 0) \<and>
   parseCSV (servingBrowser capitalCsv) capitalCsv =
     [[(''WorkbuddyName'', JStr ''Greta''), (''State'', JStr ''London''),
       (''Latitude'', JNum (Fin 51.48)), (''Longitude'', JNum (Fin 0))]]"
  by code_simp

text \<open>
  C6. For every record in the current filtered set, the map plots it if and only if it
  is mappable, that is, it is left out exactly when its coordinate is missing, not a
  number, or exactly \<open>(0, 0)\<close>; and a record that is not mappable is still counted in
  the per-region view. \<open>updateMap\<close> says the same of its test ("skip if latitude or
  longitude is missing or invalid"), and the last clause of the test names the pair
  \<open>(0, 0)\<close>; but its first clauses, \<open>!buddy.latitude\<close> and \<open>!buddy.longitude\<close>, are
  true of the number 0 each, so that the last clause is never reached with a zero. The
  record below lies on the prime meridian, at latitude 51.48 and longitude 0: it is
  mappable and it is in \<open>filtered\<close>, \<open>updateMap\<close> draws no marker for it, and the
  chart counts it under its State.
\<close>

theorem unmapped_meridian_record:
  "mappable greenwich \<and>
   filtered (data (loadedWorld [greenwich] [] ''all'')) = Some [greenwich] \<and>
   markers (worldOf (updateMap plainBrowser (loadedWorld [greenwich] [] ''all''))) = [] \<and>
   trace (worldOf (updateMap plainBrowser (loadedWorld [greenwich] [] ''all''))) = [MapDrawn []] \<and>
   stateCounts plainBrowser [greenwich] = [(''London'', Count 1)]"
  by code_simp




text \<open>
  C4. The filter-generation token of the store is a monotonically increasing integer
  that is strictly incremented each time a new filter operation is issued (not when it
  completes), so that two distinct issuances never carry equal tokens and the token of a
  superseded operation never equals the current generation. The token of the code is
  \<open>lastFilterApplied\<close>, and the deferred function compares it as the claim says ("only
  proceed if this is still the most recent filter request"); but it is a reading of
  \<open>Date.now()\<close>, not a count. Below two filter operations are issued within the same
  millisecond: both carry the token 5, the second issuance does not increment the token
  of the store, and the token of the first, superseded operation equals the current one.
\<close>

theorem equal_tokens_for_two_issuances:
  "map currentFilterTime
     (timers (filterData 5 (filterData 5 (loadedWorld [alice, bob, cara] [] ''all'')))) = [5, 5] \<and>
   lastFilterApplied (data (filterData 5 (filterData 5 (loadedWorld [alice, bob, cara] [] ''all'')))) =
   lastFilterApplied (data (filterData 5 (loadedWorld [alice, bob, cara] [] ''all''))) \<and>
   currentFilterTime
     (hd (timers (filterData 5 (filterData 5 (loadedWorld [alice, bob, cara] [] ''all''))))) =
   lastFilterApplied (data (filterData 5 (filterData 5 (loadedWorld [alice, bob, cara] [] ''all''))))"
  by (simp add: timers_filterData data_filterData)

text \<open>
  C1. For every pair of filter requests f1 and f2 where f2 is issued strictly after f1,
  \<open>filtered\<close> ends up reflecting the criteria of f2 only, and at no moment after f2 is
  issued is the result of f1 visible in \<open>filtered\<close>. The deferred function of
  \<open>filterData\<close> says the same of itself: "only proceed if this is still the most recent
  filter request". It compares readings of \<open>Date.now()\<close>, though, and below f1 (region
  CA) and f2 (region NY) are issued within the same millisecond: the deferred function of
  f1 runs with f2 pending, takes itself for the most recent request and writes its result,
  the two records of CA, to \<open>filtered\<close>; only the deferred function of f2 replaces it.
\<close>

theorem stale_result_visible_after_newer_request:
  "filtered (data (runTimer plainBrowser
      (onStateChange 5 ''NY'' (onStateChange 5 ''CA'' (loadedWorld [alice, bob, cara] [] ''all''))))) =
     Some [alice, bob] \<and>
   map capturedState (timers (runTimer plainBrowser
      (onStateChange 5 ''NY'' (onStateChange 5 ''CA'' (loadedWorld [alice, bob, cara] [] ''all''))))) =
     [''NY''] \<and>
   filtered (data (runTimer plainBrowser (runTimer plainBrowser
      (onStateChange 5 ''NY'' (onStateChange 5 ''CA'' (loadedWorld [alice, bob, cara] [] ''all'')))))) =
     Some [cara]"
  by code_simp




end
